theory Spec2Isabelle
  imports Complex_Main "HOL-Library.AList"
begin

section \<open>The EGSA calculator library (egsa/utils/egsa\_calculator.py)\<close>

text \<open>
  Numbers. The library computes with Python \<open>Decimal\<close> (costs and rates) and with
  \<open>float\<close> (usage, temperatures, ratios). Both are embedded as exact rationals:
  \<open>Decimal(str(x))\<close> and \<open>float(d)\<close> are the identity, and \<open>+\<close>, \<open>*\<close>, \<open>/\<close> are
  the exact operations. This is the arithmetic the code performs as long as a Decimal
  product fits the 28 significant digits of the default context and no binary rounding
  of a float moves a value across one of the thresholds it is compared with. Every
  concrete input used below is chosen so that the Python run gives the value computed
  here. Timestamps (\<open>datetime\<close>) are integers; \<open>datetime.now()\<close> is the argument
  \<open>now\<close> of the functions that read the clock.
\<close>

type_synonym timestamp = int

text \<open>
  The exceptions the analyzer can raise: a dictionary access with a missing key (the key
  is a string or an integer) and a division by zero.
\<close>

datatype py_key = StrKey string | IntKey int

datatype py_error = KeyError py_key | ZeroDivisionError

subsection \<open>Python helpers\<close>

text \<open>\<open>d[k]\<close> on a dictionary: raises \<open>KeyError\<close> on a missing key.\<close>

definition getitem :: "(string \<rightharpoonup> 'v) \<Rightarrow> string \<Rightarrow> py_error + 'v" where
  "getitem d k = (case d k of None \<Rightarrow> Inl (KeyError (StrKey k)) | Some v \<Rightarrow> Inr v)"

text \<open>\<open>d.get(k, default)\<close>.\<close>

definition get_default :: "(string \<rightharpoonup> 'v) \<Rightarrow> string \<Rightarrow> 'v \<Rightarrow> 'v" where
  "get_default d k dflt = (case d k of None \<Rightarrow> dflt | Some v \<Rightarrow> v)"

text \<open>
  The built-in \<open>round(x)\<close> of Python 3 with one argument: the nearest integer, a tie
  going to the even neighbour.
\<close>

definition py_round :: "rat \<Rightarrow> int" where
  "py_round x =
     (let f = \<lfloor>x\<rfloor>; d = x - of_int f
      in if d < 1 / 2 then f
         else if 1 / 2 < d then f + 1
         else if even f then f else f + 1)"

subsection \<open>class UtilityCalculator\<close>

text \<open>One dictionary appended to \<open>calculation_history\<close> by \<open>calculate_cost\<close>.\<close>

record cost_entry =
  entry_usage :: rat
  entry_rate :: rat
  entry_cost :: rat
  entry_timestamp :: timestamp

record utility_calculator =
  rate_per_unit :: rat
  calculation_history :: "cost_entry list"

text \<open>
  \<open>calculate_cost\<close> multiplies, appends the log entry and returns the product. The
  updated calculator is returned with the cost. The subclasses inherit the method, so
  it is defined on every extension of the record.
\<close>

definition calculate_cost ::
  "timestamp \<Rightarrow> 'a utility_calculator_scheme \<Rightarrow> rat \<Rightarrow> rat \<times> 'a utility_calculator_scheme" where
  "calculate_cost now self usage =
     (let cost = usage * rate_per_unit self
      in (cost,
          self\<lparr>calculation_history := calculation_history self @
            [\<lparr>entry_usage = usage, entry_rate = rate_per_unit self,
              entry_cost = cost, entry_timestamp = now\<rparr>]\<rparr>))"

datatype rating = Excellent | Good | Average | Poor

text \<open>The local \<open>ratio\<close> of \<open>get_efficiency_rating\<close>.\<close>

definition efficiency_ratio :: "rat \<Rightarrow> rat \<Rightarrow> rat" where
  "efficiency_ratio usage benchmark = (if benchmark > 0 then usage / benchmark else 1)"

definition get_efficiency_rating :: "rat \<Rightarrow> rat \<Rightarrow> rating" where
  "get_efficiency_rating usage benchmark =
     (let ratio = efficiency_ratio usage benchmark
      in if ratio \<le> 4 / 5 then Excellent
         else if ratio \<le> 1 then Good
         else if ratio \<le> 6 / 5 then Average
         else Poor)"

subsection \<open>class ElectricityCalculator\<close>

record electricity_calculator = utility_calculator +
  peak_hours :: "int \<times> int"
  peak_rate_multiplier :: rat

definition new_electricity_calculator :: "rat \<Rightarrow> electricity_calculator" where
  "new_electricity_calculator rate_per_kwh =
     \<lparr>rate_per_unit = rate_per_kwh, calculation_history = [],
      peak_hours = (17, 21), peak_rate_multiplier = 3 / 2\<rparr>"

definition calculate_peak_cost ::
  "timestamp \<Rightarrow> electricity_calculator \<Rightarrow> rat \<Rightarrow> int \<Rightarrow> rat \<times> electricity_calculator" where
  "calculate_peak_cost now self usage hour =
     (let (base_cost, self') = calculate_cost now self usage
      in if fst (peak_hours self') \<le> hour \<and> hour \<le> snd (peak_hours self')
         then (base_cost * peak_rate_multiplier self', self')
         else (base_cost, self'))"

definition estimate_carbon_footprint :: "rat \<Rightarrow> rat" where
  "estimate_carbon_footprint kwh_usage = kwh_usage * (1 / 2)"

text \<open>
  \<open>recommend_savings\<close> builds a dictionary; its keys are inserted in the order
  written, which is the order \<open>.values()\<close> lists them in.
\<close>

definition recommend_savings :: "rat \<Rightarrow> (string \<times> string) list" where
  "recommend_savings monthly_usage =
     (if monthly_usage > 500
      then [(''high_usage'', ''Consider LED lighting and energy-efficient appliances'')] else []) @
     (if monthly_usage > 300
      then [(''moderate_usage'', ''Use programmable thermostats'')] else []) @
     [(''general'', ''Unplug devices when not in use'')]"

subsection \<open>class GasCalculator\<close>

record gas_calculator = utility_calculator +
  heating_efficiency :: rat

definition new_gas_calculator :: "rat \<Rightarrow> gas_calculator" where
  "new_gas_calculator rate_per_cubic_meter =
     \<lparr>rate_per_unit = rate_per_cubic_meter, calculation_history = [],
      heating_efficiency = 17 / 20\<rparr>"

definition heating_temp_factor :: "rat \<Rightarrow> rat" where
  "heating_temp_factor outdoor_temp = max (1 / 2) ((20 - outdoor_temp) / 20)"

definition calculate_heating_cost ::
  "timestamp \<Rightarrow> gas_calculator \<Rightarrow> rat \<Rightarrow> rat \<Rightarrow> rat \<times> gas_calculator" where
  "calculate_heating_cost now self cubic_meters outdoor_temp =
     (let (base_cost, self') = calculate_cost now self cubic_meters;
          temp_factor = heating_temp_factor outdoor_temp
      in (base_cost * temp_factor, self'))"

subsection \<open>class SteamCalculator\<close>

record steam_calculator = utility_calculator +
  steam_pressure :: int
  efficiency_factor :: rat

definition new_steam_calculator :: "rat \<Rightarrow> steam_calculator" where
  "new_steam_calculator rate_per_pound =
     \<lparr>rate_per_unit = rate_per_pound, calculation_history = [],
      steam_pressure = 15, efficiency_factor = 9 / 10\<rparr>"

subsection \<open>class AirConditioningCalculator\<close>

record air_conditioning_calculator = utility_calculator +
  cop_rating :: rat
  seasonal_factor :: rat

definition new_air_conditioning_calculator :: "rat \<Rightarrow> air_conditioning_calculator" where
  "new_air_conditioning_calculator rate_per_kwh =
     \<lparr>rate_per_unit = rate_per_kwh, calculation_history = [],
      cop_rating = 7 / 2, seasonal_factor = 1\<rparr>"

definition cooling_temp_factor :: "rat \<Rightarrow> rat" where
  "cooling_temp_factor outdoor_temp = max (4 / 5) ((outdoor_temp - 70) / 30 + 1)"

definition calculate_cooling_cost ::
  "timestamp \<Rightarrow> air_conditioning_calculator \<Rightarrow> rat \<Rightarrow> rat \<Rightarrow> rat \<times> air_conditioning_calculator" where
  "calculate_cooling_cost now self kwh_usage outdoor_temp =
     (let (base_cost, self') = calculate_cost now self kwh_usage;
          temp_factor = cooling_temp_factor outdoor_temp
      in (base_cost * temp_factor, self'))"

subsection \<open>class EGSAAnalyzer\<close>

text \<open>
  The dictionary built by \<open>comprehensive_analysis\<close>. Dictionaries that are iterated
  over are association lists in insertion order, updated by \<open>AList.update\<close> (replace
  in place, or append a new key).
\<close>

record analysis =
  timestamp :: timestamp
  total_cost :: rat
  efficiency_scores :: "(string \<times> rating) list"
  recommendations :: "string list"
  environmental_impact :: "(string \<times> rat) list"

record egsa_analyzer =
  electricity :: electricity_calculator
  gas :: gas_calculator
  steam :: steam_calculator
  air_conditioning :: air_conditioning_calculator
  analysis_history :: "analysis list"

definition new_egsa_analyzer :: egsa_analyzer where
  "new_egsa_analyzer =
     \<lparr>electricity = new_electricity_calculator (3 / 25),
      gas = new_gas_calculator (9 / 20),
      steam = new_steam_calculator (1 / 40),
      air_conditioning = new_air_conditioning_calculator (3 / 20),
      analysis_history = []\<rparr>"

text \<open>
  The argument of \<open>comprehensive_analysis\<close>: utility name to a dictionary of numeric
  fields (\<open>usage\<close>, \<open>benchmark\<close>, \<open>outdoor_temp\<close>, and whatever else the caller
  puts there).
\<close>

type_synonym utility_data = "string \<rightharpoonup> (string \<rightharpoonup> rat)"

text \<open>
  A method that can raise returns the exception or the value, and in both cases the
  analyzer as it is at that moment: what was mutated before a raise stays mutated.
  \<open>try_then\<close> sequences two such computations.
\<close>

definition try_then ::
  "(py_error + 'a) \<times> 's \<Rightarrow> ('a \<Rightarrow> 's \<Rightarrow> (py_error + 'b) \<times> 's) \<Rightarrow> (py_error + 'b) \<times> 's" where
  "try_then m f = (case m of (Inl e, s) \<Rightarrow> (Inl e, s) | (Inr x, s) \<Rightarrow> f x s)"

text \<open>
  The four blocks of \<open>comprehensive_analysis\<close>. Each takes the local variables
  (\<open>total_cost\<close>, \<open>efficiency_scores\<close>, \<open>recommendations\<close>,
  \<open>environmental_impact\<close>, held in the \<open>analysis\<close> under construction) and the
  analyzer. The first \<open>['usage']\<close> of a block is the access that can raise; the
  later ones read the same key of the same dictionary.
\<close>

definition electricity_analysis ::
  "timestamp \<Rightarrow> utility_data \<Rightarrow> analysis \<Rightarrow> egsa_analyzer \<Rightarrow> (py_error + analysis) \<times> egsa_analyzer" where
  "electricity_analysis now utility_data acc self =
     (case utility_data ''electricity'' of
        None \<Rightarrow> (Inr acc, self)
      | Some elec_data \<Rightarrow>
          (case getitem elec_data ''usage'' of
             Inl e \<Rightarrow> (Inl e, self)
           | Inr usage \<Rightarrow>
               (let (cost, calc) = calculate_cost now (electricity self) usage
                in (Inr (acc\<lparr>total_cost := total_cost acc + cost,
                      efficiency_scores := AList.update ''electricity''
                        (get_efficiency_rating usage (get_default elec_data ''benchmark'' 400))
                        (efficiency_scores acc),
                      environmental_impact := AList.update ''co2_kg''
                        (estimate_carbon_footprint usage) (environmental_impact acc),
                      recommendations := recommendations acc @ map snd (recommend_savings usage)\<rparr>),
                    self\<lparr>electricity := calc\<rparr>))))"

definition gas_analysis ::
  "timestamp \<Rightarrow> utility_data \<Rightarrow> analysis \<Rightarrow> egsa_analyzer \<Rightarrow> (py_error + analysis) \<times> egsa_analyzer" where
  "gas_analysis now utility_data acc self =
     (case utility_data ''gas'' of
        None \<Rightarrow> (Inr acc, self)
      | Some gas_data \<Rightarrow>
          (case getitem gas_data ''usage'' of
             Inl e \<Rightarrow> (Inl e, self)
           | Inr usage \<Rightarrow>
               (let (cost, calc) = calculate_heating_cost now (gas self) usage
                                     (get_default gas_data ''outdoor_temp'' 20)
                in (Inr (acc\<lparr>total_cost := total_cost acc + cost,
                      efficiency_scores := AList.update ''gas''
                        (get_efficiency_rating usage (get_default gas_data ''benchmark'' 100))
                        (efficiency_scores acc)\<rparr>),
                    self\<lparr>gas := calc\<rparr>))))"

definition steam_analysis ::
  "timestamp \<Rightarrow> utility_data \<Rightarrow> analysis \<Rightarrow> egsa_analyzer \<Rightarrow> (py_error + analysis) \<times> egsa_analyzer" where
  "steam_analysis now utility_data acc self =
     (case utility_data ''steam'' of
        None \<Rightarrow> (Inr acc, self)
      | Some steam_data \<Rightarrow>
          (case getitem steam_data ''usage'' of
             Inl e \<Rightarrow> (Inl e, self)
           | Inr usage \<Rightarrow>
               (let (cost, calc) = calculate_cost now (steam self) usage
                in (Inr (acc\<lparr>total_cost := total_cost acc + cost,
                      efficiency_scores := AList.update ''steam''
                        (get_efficiency_rating usage (get_default steam_data ''benchmark'' 50))
                        (efficiency_scores acc)\<rparr>),
                    self\<lparr>steam := calc\<rparr>))))"

definition air_conditioning_analysis ::
  "timestamp \<Rightarrow> utility_data \<Rightarrow> analysis \<Rightarrow> egsa_analyzer \<Rightarrow> (py_error + analysis) \<times> egsa_analyzer" where
  "air_conditioning_analysis now utility_data acc self =
     (case utility_data ''air_conditioning'' of
        None \<Rightarrow> (Inr acc, self)
      | Some ac_data \<Rightarrow>
          (case getitem ac_data ''usage'' of
             Inl e \<Rightarrow> (Inl e, self)
           | Inr usage \<Rightarrow>
               (let (cost, calc) = calculate_cooling_cost now (air_conditioning self) usage
                                     (get_default ac_data ''outdoor_temp'' 75)
                in (Inr (acc\<lparr>total_cost := total_cost acc + cost,
                      efficiency_scores := AList.update ''air_conditioning''
                        (get_efficiency_rating usage (get_default ac_data ''benchmark'' 200))
                        (efficiency_scores acc)\<rparr>),
                    self\<lparr>air_conditioning := calc\<rparr>))))"

definition comprehensive_analysis ::
  "timestamp \<Rightarrow> egsa_analyzer \<Rightarrow> utility_data \<Rightarrow> (py_error + analysis) \<times> egsa_analyzer" where
  "comprehensive_analysis now self utility_data =
     try_then (electricity_analysis now utility_data
         \<lparr>timestamp = now, total_cost = 0, efficiency_scores = [],
          recommendations = [], environmental_impact = []\<rparr> self)
       (\<lambda>acc1 self1. try_then (gas_analysis now utility_data acc1 self1)
       (\<lambda>acc2 self2. try_then (steam_analysis now utility_data acc2 self2)
       (\<lambda>acc3 self3. try_then (air_conditioning_analysis now utility_data acc3 self3)
       (\<lambda>analysis self4.
          (Inr analysis,
           self4\<lparr>analysis_history := analysis_history self4 @ [analysis]\<rparr>)))))"

subsection \<open>The monthly report\<close>

datatype trend = InsufficientData | Increasing | Decreasing | Stable

definition calculate_cost_trend :: "analysis list \<Rightarrow> trend" where
  "calculate_cost_trend analyses =
     (if length analyses < 2 then InsufficientData
      else
        (let recent_cost = total_cost (last analyses);
             older_cost = total_cost (hd analyses)
         in if recent_cost > older_cost * (11 / 10) then Increasing
            else if recent_cost < older_cost * (9 / 10) then Decreasing
            else Stable))"

text \<open>The two literal dictionaries of \<open>_calculate_average_efficiency\<close>.\<close>

fun score_value :: "rating \<Rightarrow> int" where
  "score_value Excellent = 4"
| "score_value Good = 3"
| "score_value Average = 2"
| "score_value Poor = 1"

definition rating_of_value :: "int \<Rightarrow> py_error + rating" where
  "rating_of_value n =
     (if n = 4 then Inr Excellent
      else if n = 3 then Inr Good
      else if n = 2 then Inr Average
      else if n = 1 then Inr Poor
      else Inl (KeyError (IntKey n)))"

type_synonym tally = "(string \<times> int) list"

text \<open>The body of the inner loop: one \<open>(utility, score)\<close> item of one analysis.\<close>

definition add_score :: "string \<Rightarrow> rating \<Rightarrow> tally \<times> tally \<Rightarrow> py_error + tally \<times> tally" where
  "add_score utility score acc =
     (let (totals, counts) = acc;
          (totals, counts) =
            (if map_of totals utility = None
             then (AList.update utility 0 totals, AList.update utility 0 counts)
             else (totals, counts))
      in case map_of totals utility of
           None \<Rightarrow> Inl (KeyError (StrKey utility))
         | Some t \<Rightarrow>
             (case map_of counts utility of
                None \<Rightarrow> Inl (KeyError (StrKey utility))
              | Some c \<Rightarrow>
                  Inr (AList.update utility (t + score_value score) totals,
                       AList.update utility (c + 1) counts)))"

fun score_loop :: "(string \<times> rating) list \<Rightarrow> tally \<times> tally \<Rightarrow> py_error + tally \<times> tally" where
  "score_loop [] acc = Inr acc"
| "score_loop ((utility, score) # items) acc =
     (case add_score utility score acc of
        Inl e \<Rightarrow> Inl e
      | Inr acc' \<Rightarrow> score_loop items acc')"

fun analyses_loop :: "analysis list \<Rightarrow> tally \<times> tally \<Rightarrow> py_error + tally \<times> tally" where
  "analyses_loop [] acc = Inr acc"
| "analyses_loop (a # rest) acc =
     (case score_loop (efficiency_scores a) acc of
        Inl e \<Rightarrow> Inl e
      | Inr acc' \<Rightarrow> analyses_loop rest acc')"

text \<open>The second loop, over the keys of \<open>efficiency_totals\<close>.\<close>

fun average_loop ::
  "string list \<Rightarrow> tally \<Rightarrow> tally \<Rightarrow> (string \<times> rating) list \<Rightarrow> py_error + (string \<times> rating) list" where
  "average_loop [] totals counts avg_scores = Inr avg_scores"
| "average_loop (utility # rest) totals counts avg_scores =
     (case map_of totals utility of
        None \<Rightarrow> Inl (KeyError (StrKey utility))
      | Some t \<Rightarrow>
          (case map_of counts utility of
             None \<Rightarrow> Inl (KeyError (StrKey utility))
           | Some c \<Rightarrow>
               if c = 0 then Inl ZeroDivisionError
               else
                 (case rating_of_value (py_round (of_int t / of_int c)) of
                    Inl e \<Rightarrow> Inl e
                  | Inr r \<Rightarrow> average_loop rest totals counts (AList.update utility r avg_scores))))"

definition calculate_average_efficiency :: "analysis list \<Rightarrow> py_error + (string \<times> rating) list" where
  "calculate_average_efficiency analyses =
     (case analyses_loop analyses ([], []) of
        Inl e \<Rightarrow> Inl e
      | Inr (totals, counts) \<Rightarrow> average_loop (map fst totals) totals counts [])"

text \<open>
  The dictionary \<open>generate_monthly_report\<close> returns has one of two shapes: the single
  key \<open>error\<close>, or the five keys of a report. The period label is kept as the pair of
  dates it is formatted from.
\<close>

record report =
  period :: "timestamp \<times> timestamp"
  report_total_cost :: rat
  average_efficiency :: "(string \<times> rating) list"
  total_analyses :: nat
  cost_trend :: trend

datatype monthly_report = ErrorDict string | ReportDict report

text \<open>\<open>report.get('cost_trend')\<close> and \<open>report.get('error')\<close> on the returned dictionary.\<close>

fun get_cost_trend :: "monthly_report \<Rightarrow> trend option" where
  "get_cost_trend (ErrorDict msg) = None"
| "get_cost_trend (ReportDict r) = Some (cost_trend r)"

fun get_error :: "monthly_report \<Rightarrow> string option" where
  "get_error (ErrorDict msg) = Some msg"
| "get_error (ReportDict r) = None"

definition relevant_analyses :: "egsa_analyzer \<Rightarrow> timestamp \<Rightarrow> timestamp \<Rightarrow> analysis list" where
  "relevant_analyses self start_date end_date =
     filter (\<lambda>analysis. start_date \<le> timestamp analysis \<and> timestamp analysis \<le> end_date)
       (analysis_history self)"

definition generate_monthly_report ::
  "egsa_analyzer \<Rightarrow> timestamp \<Rightarrow> timestamp \<Rightarrow> (py_error + monthly_report) \<times> egsa_analyzer" where
  "generate_monthly_report self start_date end_date =
     (let relevant = relevant_analyses self start_date end_date
      in if relevant = []
         then (Inr (ErrorDict ''No data available for the specified period''), self)
         else
           (let total = sum_list (map total_cost relevant)
            in case calculate_average_efficiency relevant of
                 Inl e \<Rightarrow> (Inl e, self)
               | Inr avg_efficiency \<Rightarrow>
                   (Inr (ReportDict
                      \<lparr>period = (start_date, end_date),
                       report_total_cost = total,
                       average_efficiency = avg_efficiency,
                       total_analyses = length relevant,
                       cost_trend = calculate_cost_trend relevant\<rparr>),
                    self)))"

subsection \<open>Reference definitions for the stated properties\<close>



text \<open>
  The rounding convention the specification documents for the average rating: to the
  nearest integer, a tie going up.
\<close>

definition spec_round_half_up :: "rat \<Rightarrow> int" where
  "spec_round_half_up x = \<lfloor>x + 1 / 2\<rfloor>"

text \<open>
  The ratings recorded for one utility: in a list of \<open>(utility, score)\<close> items, and in
  a list of analyses (each analysis holds a utility at most once, its
  \<open>efficiency_scores\<close> being a dictionary). \<open>mean_score\<close> is the arithmetic mean of
  their ordinal values.
\<close>

definition items_of :: "string \<Rightarrow> (string \<times> rating) list \<Rightarrow> rating list" where
  "items_of utility items = map snd (filter (\<lambda>item. fst item = utility) items)"

definition ratings_of :: "string \<Rightarrow> analysis list \<Rightarrow> rating list" where
  "ratings_of utility analyses = items_of utility (concat (map efficiency_scores analyses))"

definition mean_score :: "rating list \<Rightarrow> rat" where
  "mean_score rs = of_int (sum_list (map score_value rs)) / of_int (int (length rs))"

text \<open>
  The loop invariant of the first loop of \<open>_calculate_average_efficiency\<close>: after the
  items \<open>items\<close>, the two dictionaries hold, for each utility seen, the sum and the
  number of its scores.
\<close>

definition tallied :: "(string \<times> rating) list \<Rightarrow> tally \<times> tally \<Rightarrow> bool" where
  "tallied items acc =
     (\<forall>utility.
        map_of (fst acc) utility =
          (if items_of utility items = [] then None
           else Some (sum_list (map score_value (items_of utility items)))) \<and>
        map_of (snd acc) utility =
          (if items_of utility items = [] then None
           else Some (int (length (items_of utility items)))))"

text \<open>A utility is present in the input of \<open>comprehensive_analysis\<close> without \<open>usage\<close>.\<close>

definition lacks_usage :: "utility_data \<Rightarrow> string \<Rightarrow> bool" where
  "lacks_usage utility_data utility =
     (case utility_data utility of None \<Rightarrow> False | Some entry \<Rightarrow> entry ''usage'' = None)"

text \<open>The \<open>cost_trend\<close> a caller reads off what \<open>generate_monthly_report\<close> gave.\<close>

definition report_cost_trend :: "py_error + monthly_report \<Rightarrow> trend option" where
  "report_cost_trend r = (case r of Inl e \<Rightarrow> None | Inr d \<Rightarrow> get_cost_trend d)"

text \<open>An analysis with given timestamp, total cost and scores, for concrete histories.\<close>

definition analysis_record :: "timestamp \<Rightarrow> rat \<Rightarrow> (string \<times> rating) list \<Rightarrow> analysis" where
  "analysis_record t c scores =
     \<lparr>timestamp = t, total_cost = c, efficiency_scores = scores,
      recommendations = [], environmental_impact = []\<rparr>"

section \<open>Properties\<close>

subsection \<open>Rounding\<close>

lemma py_round_of_int: "py_round (of_int k) = k"
  by (simp add: py_round_def)


lemma py_round_bounds:
  assumes "1 \<le> x" and "x \<le> 4"
  shows "1 \<le> py_round x \<and> py_round x \<le> 4"
proof -
  have lo: "1 \<le> \<lfloor>x\<rfloor>" using assms(1) by (simp add: le_floor_iff)
  have hi: "\<lfloor>x\<rfloor> \<le> 4" using floor_mono [OF assms(2)] by simp
  show ?thesis
  proof (cases "\<lfloor>x\<rfloor> = 4")
    case True
    then have "4 \<le> x" by (metis of_int_floor_le of_int_numeral)
    with assms(2) have "x = 4" by simp
    then show ?thesis by (simp add: py_round_def)
  next
    case False
    with hi have "\<lfloor>x\<rfloor> \<le> 3" by linarith
    with lo show ?thesis by (auto simp: py_round_def Let_def)
  qed
qed

subsection \<open>calculate\_cost\<close>






subsection \<open>get\_efficiency\_rating\<close>




subsection \<open>Gas heating cost\<close>




subsection \<open>comprehensive\_analysis\<close>

lemma electricity_analysis_history:
  "analysis_history (snd (electricity_analysis now utility_data acc self)) = analysis_history self"
  by (simp add: electricity_analysis_def split_def Let_def split: option.splits sum.splits)

lemma gas_analysis_history:
  "analysis_history (snd (gas_analysis now utility_data acc self)) = analysis_history self"
  by (simp add: gas_analysis_def split_def Let_def split: option.splits sum.splits)

lemma steam_analysis_history:
  "analysis_history (snd (steam_analysis now utility_data acc self)) = analysis_history self"
  by (simp add: steam_analysis_def split_def Let_def split: option.splits sum.splits)

lemma air_conditioning_analysis_history:
  "analysis_history (snd (air_conditioning_analysis now utility_data acc self))
     = analysis_history self"
  by (simp add: air_conditioning_analysis_def split_def Let_def split: option.splits sum.splits)

text \<open>A block raises exactly when its utility is present without the key \<open>usage\<close>.\<close>

lemma electricity_analysis_raises:
  "fst (electricity_analysis now utility_data acc self) =
     Inl e \<longleftrightarrow> lacks_usage utility_data ''electricity'' \<and> e = KeyError (StrKey ''usage'')"
  by (auto simp: electricity_analysis_def lacks_usage_def getitem_def split_def Let_def
      split: option.splits)

lemma gas_analysis_raises:
  "fst (gas_analysis now utility_data acc self) =
     Inl e \<longleftrightarrow> lacks_usage utility_data ''gas'' \<and> e = KeyError (StrKey ''usage'')"
  by (auto simp: gas_analysis_def lacks_usage_def getitem_def split_def Let_def
      split: option.splits)

lemma steam_analysis_raises:
  "fst (steam_analysis now utility_data acc self) =
     Inl e \<longleftrightarrow> lacks_usage utility_data ''steam'' \<and> e = KeyError (StrKey ''usage'')"
  by (auto simp: steam_analysis_def lacks_usage_def getitem_def split_def Let_def
      split: option.splits)

lemma air_conditioning_analysis_raises:
  "fst (air_conditioning_analysis now utility_data acc self) =
     Inl e \<longleftrightarrow> lacks_usage utility_data ''air_conditioning'' \<and> e = KeyError (StrKey ''usage'')"
  by (auto simp: air_conditioning_analysis_def lacks_usage_def getitem_def split_def Let_def
      split: option.splits)

lemma electricity_analysis_cases:
  "electricity_analysis now utility_data acc self = (r, s) \<Longrightarrow>
     analysis_history s = analysis_history self \<and>
     (case r of Inl e \<Rightarrow> lacks_usage utility_data ''electricity'' \<and> e = KeyError (StrKey ''usage'')
      | Inr a \<Rightarrow> \<not> lacks_usage utility_data ''electricity'')"
  using electricity_analysis_history [of now utility_data acc self]
    electricity_analysis_raises [of now utility_data acc self]
  by (cases r) auto

lemma gas_analysis_cases:
  "gas_analysis now utility_data acc self = (r, s) \<Longrightarrow>
     analysis_history s = analysis_history self \<and>
     (case r of Inl e \<Rightarrow> lacks_usage utility_data ''gas'' \<and> e = KeyError (StrKey ''usage'')
      | Inr a \<Rightarrow> \<not> lacks_usage utility_data ''gas'')"
  using gas_analysis_history [of now utility_data acc self]
    gas_analysis_raises [of now utility_data acc self]
  by (cases r) auto

lemma steam_analysis_cases:
  "steam_analysis now utility_data acc self = (r, s) \<Longrightarrow>
     analysis_history s = analysis_history self \<and>
     (case r of Inl e \<Rightarrow> lacks_usage utility_data ''steam'' \<and> e = KeyError (StrKey ''usage'')
      | Inr a \<Rightarrow> \<not> lacks_usage utility_data ''steam'')"
  using steam_analysis_history [of now utility_data acc self]
    steam_analysis_raises [of now utility_data acc self]
  by (cases r) auto

lemma air_conditioning_analysis_cases:
  "air_conditioning_analysis now utility_data acc self = (r, s) \<Longrightarrow>
     analysis_history s = analysis_history self \<and>
     (case r of
        Inl e \<Rightarrow> lacks_usage utility_data ''air_conditioning'' \<and> e = KeyError (StrKey ''usage'')
      | Inr a \<Rightarrow> \<not> lacks_usage utility_data ''air_conditioning'')"
  using air_conditioning_analysis_history [of now utility_data acc self]
    air_conditioning_analysis_raises [of now utility_data acc self]
  by (cases r) auto

text \<open>
  The two outcomes of \<open>comprehensive_analysis\<close>: a \<open>KeyError\<close> for \<open>usage\<close> with the
  history as it was, or an analysis, which is then the last element of the history.
\<close>

lemma comprehensive_analysis_outcome:
  "comprehensive_analysis now self utility_data = (r, s) \<Longrightarrow>
     (case r of
        Inl e \<Rightarrow> e = KeyError (StrKey ''usage'') \<and> analysis_history s = analysis_history self \<and>
          (lacks_usage utility_data ''electricity'' \<or> lacks_usage utility_data ''gas'' \<or>
           lacks_usage utility_data ''steam'' \<or> lacks_usage utility_data ''air_conditioning'')
      | Inr a \<Rightarrow> analysis_history s = analysis_history self @ [a] \<and>
          \<not> lacks_usage utility_data ''electricity'' \<and> \<not> lacks_usage utility_data ''gas'' \<and>
          \<not> lacks_usage utility_data ''steam'' \<and> \<not> lacks_usage utility_data ''air_conditioning'')"
  unfolding comprehensive_analysis_def try_then_def
  by (auto split: prod.splits sum.splits
      dest!: electricity_analysis_cases gas_analysis_cases steam_analysis_cases
        air_conditioning_analysis_cases)

text \<open>
  C9. If the entry of one of the four utilities in the mapping passed to
  \<open>comprehensive_analysis\<close> has no \<open>usage\<close> key, the call raises (the \<open>KeyError\<close> for
  \<open>usage\<close>, which the specification names MalformedSample): no analysis is returned and
  the analysis history is what it was before the call.
\<close>

theorem missing_usage_aborts_analysis:
  assumes "utility \<in> {''electricity'', ''gas'', ''steam'', ''air_conditioning''}"
    and "utility_data utility = Some entry"
    and "entry ''usage'' = None"
  shows "fst (comprehensive_analysis now self utility_data) = Inl (KeyError (StrKey ''usage'')) \<and>
    analysis_history (snd (comprehensive_analysis now self utility_data)) = analysis_history self"
proof -
  have lacks: "lacks_usage utility_data utility"
    using assms by (simp add: lacks_usage_def)
  obtain r s where rs: "comprehensive_analysis now self utility_data = (r, s)"
    by (cases "comprehensive_analysis now self utility_data")
  show ?thesis
  proof (cases r)
    case (Inl e)
    with comprehensive_analysis_outcome [OF rs] rs show ?thesis by simp
  next
    case (Inr a)
    with comprehensive_analysis_outcome [OF rs] lacks assms(1) show ?thesis by auto
  qed
qed

text \<open>
  The witness has a well-formed electricity entry before the malformed gas entry: the
  call raises and the history stays empty, while the electricity calculator has already
  logged its cost.
\<close>

theorem missing_usage_aborts_analysis_witness:
  "''gas'' \<in> {''electricity'', ''gas'', ''steam'', ''air_conditioning''} \<and>
   [''electricity'' \<mapsto> [''usage'' \<mapsto> 100 :: rat], ''gas'' \<mapsto> [''benchmark'' \<mapsto> 100]] ''gas''
     = Some [''benchmark'' \<mapsto> 100] \<and>
   [''benchmark'' \<mapsto> 100 :: rat] ''usage'' = None \<and>
   fst (comprehensive_analysis 7 new_egsa_analyzer
     [''electricity'' \<mapsto> [''usage'' \<mapsto> 100], ''gas'' \<mapsto> [''benchmark'' \<mapsto> 100]])
     = Inl (KeyError (StrKey ''usage'')) \<and>
   analysis_history (snd (comprehensive_analysis 7 new_egsa_analyzer
     [''electricity'' \<mapsto> [''usage'' \<mapsto> 100], ''gas'' \<mapsto> [''benchmark'' \<mapsto> 100]]))
     = [] \<and>
   calculation_history (electricity (snd (comprehensive_analysis 7 new_egsa_analyzer
     [''electricity'' \<mapsto> [''usage'' \<mapsto> 100], ''gas'' \<mapsto> [''benchmark'' \<mapsto> 100]])))
     = [\<lparr>entry_usage = 100, entry_rate = 3 / 25, entry_cost = 12, entry_timestamp = 7\<rparr>]"
proof -
  have log: "calculation_history (electricity (snd (comprehensive_analysis 7 new_egsa_analyzer
     [''electricity'' \<mapsto> [''usage'' \<mapsto> 100], ''gas'' \<mapsto> [''benchmark'' \<mapsto> 100]])))
     = [\<lparr>entry_usage = 100, entry_rate = 3 / 25, entry_cost = 12, entry_timestamp = 7\<rparr>]"
    by (simp add: comprehensive_analysis_def try_then_def electricity_analysis_def
        gas_analysis_def getitem_def calculate_cost_def new_egsa_analyzer_def
        new_electricity_calculator_def Let_def)
  show ?thesis
    using log missing_usage_aborts_analysis [of "''gas''"
        "[''electricity'' \<mapsto> [''usage'' \<mapsto> 100], ''gas'' \<mapsto> [''benchmark'' \<mapsto> 100]]"
        "[''benchmark'' \<mapsto> 100]" 7 new_egsa_analyzer]
    by (simp add: new_egsa_analyzer_def)
qed

text \<open>
  C3 (as amended). When the analyzer processes an electricity sample, the cost it adds
  to \<open>total_cost\<close> is the plain cost usage times rate. The electricity block reads
  the keys \<open>usage\<close> and \<open>benchmark\<close> only, so an hour (or any other field) in the
  sample changes nothing of the call. The 1.5 ratio between hour 18 and hour 10 holds
  for \<open>calculate_peak_cost\<close> with the default peak window and multiplier, which the
  analyzer does not call.
\<close>

theorem analyzer_electricity_cost:
  "(utility_data ''electricity'' = Some elec_data \<and> elec_data ''usage'' = Some usage \<longrightarrow>
      (\<exists>acc' self'. electricity_analysis now utility_data acc self = (Inr acc', self') \<and>
         total_cost acc' = total_cost acc + usage * rate_per_unit (electricity self))) \<and>
   (key \<noteq> ''usage'' \<and> key \<noteq> ''benchmark'' \<longrightarrow>
      comprehensive_analysis now self (utility_data(''electricity'' \<mapsto> elec_data(key \<mapsto> v)))
        = comprehensive_analysis now self (utility_data(''electricity'' \<mapsto> elec_data))) \<and>
   (peak_hours calc = (17, 21) \<and> peak_rate_multiplier calc = 3 / 2 \<longrightarrow>
      fst (calculate_peak_cost now calc usage 18)
        = 3 / 2 * fst (calculate_peak_cost now calc usage 10))"
proof -
  have plain: "utility_data ''electricity'' = Some elec_data \<and> elec_data ''usage'' = Some usage \<longrightarrow>
      (\<exists>acc' self'. electricity_analysis now utility_data acc self = (Inr acc', self') \<and>
         total_cost acc' = total_cost acc + usage * rate_per_unit (electricity self))"
    by (simp add: electricity_analysis_def getitem_def calculate_cost_def Let_def)
  have elec: "electricity_analysis now (utility_data(''electricity'' \<mapsto> elec_data(key \<mapsto> v))) a s
      = electricity_analysis now (utility_data(''electricity'' \<mapsto> elec_data)) a s"
    if "key \<noteq> ''usage'' \<and> key \<noteq> ''benchmark''" for a s
  proof -
    from that have u: "getitem (elec_data(key \<mapsto> v)) ''usage'' = getitem elec_data ''usage''"
      and b: "get_default (elec_data(key \<mapsto> v)) ''benchmark'' d
        = get_default elec_data ''benchmark'' d" for d
      by (auto simp: getitem_def get_default_def)
    show ?thesis
      unfolding electricity_analysis_def fun_upd_same option.case u b ..
  qed
  have others:
    "gas_analysis now (utility_data(''electricity'' \<mapsto> d)) = gas_analysis now utility_data"
    "steam_analysis now (utility_data(''electricity'' \<mapsto> d)) = steam_analysis now utility_data"
    "air_conditioning_analysis now (utility_data(''electricity'' \<mapsto> d))
       = air_conditioning_analysis now utility_data" for d
    by (simp_all add: gas_analysis_def steam_analysis_def air_conditioning_analysis_def fun_eq_iff)
  have ignored: "key \<noteq> ''usage'' \<and> key \<noteq> ''benchmark'' \<longrightarrow>
      comprehensive_analysis now self (utility_data(''electricity'' \<mapsto> elec_data(key \<mapsto> v)))
        = comprehensive_analysis now self (utility_data(''electricity'' \<mapsto> elec_data))"
    unfolding comprehensive_analysis_def others by (simp add: elec)
  have peak: "peak_hours calc = (17, 21) \<and> peak_rate_multiplier calc = 3 / 2 \<longrightarrow>
      fst (calculate_peak_cost now calc usage 18)
        = 3 / 2 * fst (calculate_peak_cost now calc usage 10)"
    by (simp add: calculate_peak_cost_def calculate_cost_def Let_def)
  show ?thesis using plain ignored peak by blast
qed

theorem analyzer_electricity_cost_witness:
  "comprehensive_analysis 3 new_egsa_analyzer
       [''electricity'' \<mapsto> [''usage'' \<mapsto> 100, ''hour_of_day'' \<mapsto> 18]]
     = comprehensive_analysis 3 new_egsa_analyzer [''electricity'' \<mapsto> [''usage'' \<mapsto> 100]] \<and>
   fst (calculate_peak_cost 3 (new_electricity_calculator (3 / 25)) 100 18) = 18 \<and>
   fst (calculate_peak_cost 3 (new_electricity_calculator (3 / 25)) 100 10) = 12"
proof -
  have peak10: "fst (calculate_peak_cost 3 (new_electricity_calculator (3 / 25)) 100 10) = 12"
    by (simp add: calculate_peak_cost_def calculate_cost_def new_electricity_calculator_def
        Let_def)
  show ?thesis
    using peak10 analyzer_electricity_cost [of Map.empty "[''usage'' \<mapsto> 100]" 100 3
        "\<lparr>timestamp = 3, total_cost = 0, efficiency_scores = [],
          recommendations = [], environmental_impact = []\<rparr>"
        new_egsa_analyzer "''hour_of_day''" 18 "new_electricity_calculator (3 / 25)"]
    by (simp add: new_electricity_calculator_def)
qed

text \<open>
  C3 as stated fails: with a fresh analyzer and usage 100, the electricity cost in the
  analysis is 12 whether the sample says hour 18 or hour 10; it is not 1.5 times larger
  at hour 18.
\<close>

theorem analyzer_electricity_cost_counterexample:
  "map_sum id total_cost (fst (comprehensive_analysis 0 new_egsa_analyzer
      [''electricity'' \<mapsto> [''usage'' \<mapsto> 100, ''hour_of_day'' \<mapsto> 18]])) = Inr 12 \<and>
   map_sum id total_cost (fst (comprehensive_analysis 0 new_egsa_analyzer
      [''electricity'' \<mapsto> [''usage'' \<mapsto> 100, ''hour_of_day'' \<mapsto> 10]])) = Inr 12 \<and>
   (12 :: rat) \<noteq> 3 / 2 * 12"
  by (simp add: comprehensive_analysis_def try_then_def electricity_analysis_def gas_analysis_def
      steam_analysis_def air_conditioning_analysis_def
      getitem_def calculate_cost_def new_egsa_analyzer_def new_electricity_calculator_def Let_def)

subsection \<open>Average efficiency\<close>

lemma items_of_append:
  "items_of utility (xs @ ys) = items_of utility xs @ items_of utility ys"
  by (simp add: items_of_def)

lemma items_of_single:
  "items_of utility [(u, s)] = (if u = utility then [s] else [])"
  by (simp add: items_of_def)

lemma tallied_empty: "tallied [] ([], [])"
  by (simp add: tallied_def items_of_def)

text \<open>One item keeps the invariant, and the two dictionary accesses do not raise.\<close>

lemma add_score_tallied:
  assumes "tallied items acc"
  shows "\<exists>acc'. add_score u s acc = Inr acc' \<and> tallied (items @ [(u, s)]) acc'"
proof -
  obtain totals counts where acc: "acc = (totals, counts)" by (cases acc)
  show ?thesis
  proof (cases "items_of u items = []")
    case True
    with assms acc have none: "map_of totals u = None" "map_of counts u = None"
      by (simp_all add: tallied_def)
    then have step: "add_score u s acc =
        Inr (AList.update u (0 + score_value s) (AList.update u 0 totals),
             AList.update u (0 + 1) (AList.update u 0 counts))"
      by (simp add: add_score_def acc AList.update_conv')
    have "tallied (items @ [(u, s)])
        (AList.update u (0 + score_value s) (AList.update u 0 totals),
         AList.update u (0 + 1) (AList.update u 0 counts))"
      using assms acc True
      by (simp add: tallied_def AList.update_conv' items_of_append items_of_single)
    with step show ?thesis by blast
  next
    case False
    with assms acc have some:
      "map_of totals u = Some (sum_list (map score_value (items_of u items)))"
      "map_of counts u = Some (int (length (items_of u items)))"
      by (simp_all add: tallied_def)
    then have step: "add_score u s acc =
        Inr (AList.update u (sum_list (map score_value (items_of u items)) + score_value s) totals,
             AList.update u (int (length (items_of u items)) + 1) counts)"
      by (simp add: add_score_def acc)
    have "tallied (items @ [(u, s)])
        (AList.update u (sum_list (map score_value (items_of u items)) + score_value s) totals,
         AList.update u (int (length (items_of u items)) + 1) counts)"
      using assms acc False
      by (simp add: tallied_def AList.update_conv' items_of_append items_of_single)
    with step show ?thesis by blast
  qed
qed

lemma score_loop_tallied:
  "tallied items acc \<Longrightarrow>
     \<exists>acc'. score_loop xs acc = Inr acc' \<and> tallied (items @ xs) acc'"
proof (induction xs arbitrary: items acc)
  case Nil
  then show ?case by simp
next
  case (Cons x xs)
  obtain u s where x: "x = (u, s)" by (cases x)
  from add_score_tallied [OF Cons.prems, of u s] obtain acc1
    where a1: "add_score u s acc = Inr acc1" and t1: "tallied (items @ [(u, s)]) acc1"
    by blast
  from Cons.IH [OF t1] obtain acc'
    where "score_loop xs acc1 = Inr acc'" and "tallied ((items @ [(u, s)]) @ xs) acc'"
    by blast
  with a1 x show ?case by simp
qed

lemma analyses_loop_tallied:
  "tallied items acc \<Longrightarrow>
     \<exists>acc'. analyses_loop analyses acc = Inr acc' \<and>
       tallied (items @ concat (map efficiency_scores analyses)) acc'"
proof (induction analyses arbitrary: items acc)
  case Nil
  then show ?case by simp
next
  case (Cons a rest)
  from score_loop_tallied [OF Cons.prems, of "efficiency_scores a"] obtain acc1
    where a1: "score_loop (efficiency_scores a) acc = Inr acc1"
      and t1: "tallied (items @ efficiency_scores a) acc1"
    by blast
  from Cons.IH [OF t1] obtain acc'
    where "analyses_loop rest acc1 = Inr acc'"
      and "tallied ((items @ efficiency_scores a) @ concat (map efficiency_scores rest)) acc'"
    by blast
  with a1 show ?case by simp
qed

text \<open>The mean of ordinal values lies between 1 and 4, so the last lookup finds a rating.\<close>

lemma score_sum_bounds:
  "int (length rs) \<le> sum_list (map score_value rs) \<and>
   sum_list (map score_value rs) \<le> 4 * int (length rs)"
proof (induction rs)
  case Nil
  then show ?case by simp
next
  case (Cons r rs)
  then show ?case by (cases r) simp_all
qed

lemma mean_score_bounds:
  assumes "rs \<noteq> []"
  shows "1 \<le> mean_score rs \<and> mean_score rs \<le> 4"
proof -
  have pos: "0 < (of_int (int (length rs)) :: rat)"
    using assms by simp
  have "(of_int (int (length rs)) :: rat) \<le> of_int (sum_list (map score_value rs))"
    and "(of_int (sum_list (map score_value rs)) :: rat) \<le> 4 * of_int (int (length rs))"
    using score_sum_bounds [of rs]
    by (metis of_int_le_iff, metis of_int_le_iff of_int_mult of_int_numeral)
  with pos show ?thesis
    by (simp add: mean_score_def field_simps)
qed

lemma rating_of_mean:
  assumes "rs \<noteq> []"
  shows "\<exists>r. rating_of_value (py_round (mean_score rs)) = Inr r"
proof -
  from mean_score_bounds [OF assms] py_round_bounds [of "mean_score rs"]
  have "1 \<le> py_round (mean_score rs)" "py_round (mean_score rs) \<le> 4" by simp_all
  then have "py_round (mean_score rs) \<in> {1, 2, 3, 4}" by auto
  then show ?thesis by (auto simp: rating_of_value_def)
qed

lemma average_loop_tallied:
  assumes "tallied items (totals, counts)"
  shows "\<forall>u \<in> set ks. items_of u items \<noteq> [] \<Longrightarrow>
     \<exists>res. average_loop ks totals counts avg = Inr res \<and>
       (\<forall>u. (u \<in> set ks \<longrightarrow>
                (\<exists>r. map_of res u = Some r \<and>
                   rating_of_value (py_round (mean_score (items_of u items))) = Inr r)) \<and>
            (u \<notin> set ks \<longrightarrow> map_of res u = map_of avg u))"
proof (induction ks arbitrary: avg)
  case Nil
  then show ?case by simp
next
  case (Cons k ks)
  then have ne: "items_of k items \<noteq> []" by simp
  with assms have t: "map_of totals k = Some (sum_list (map score_value (items_of k items)))"
    and c: "map_of counts k = Some (int (length (items_of k items)))"
    by (simp_all add: tallied_def)
  from rating_of_mean [OF ne] obtain r
    where r: "rating_of_value (py_round (mean_score (items_of k items))) = Inr r" by blast
  have step: "average_loop (k # ks) totals counts avg =
      average_loop ks totals counts (AList.update k r avg)"
    using t c r ne by (simp add: mean_score_def)
  from Cons.IH [of "AList.update k r avg"] Cons.prems obtain res
    where res: "average_loop ks totals counts (AList.update k r avg) = Inr res"
      and vals: "\<forall>u. (u \<in> set ks \<longrightarrow>
                (\<exists>r. map_of res u = Some r \<and>
                   rating_of_value (py_round (mean_score (items_of u items))) = Inr r)) \<and>
            (u \<notin> set ks \<longrightarrow> map_of res u = map_of (AList.update k r avg) u)"
    by auto
  have "\<forall>u. (u \<in> set (k # ks) \<longrightarrow>
                (\<exists>r. map_of res u = Some r \<and>
                   rating_of_value (py_round (mean_score (items_of u items))) = Inr r)) \<and>
            (u \<notin> set (k # ks) \<longrightarrow> map_of res u = map_of avg u)"
  proof (intro allI conjI impI)
    fix u
    assume "u \<in> set (k # ks)"
    show "\<exists>r. map_of res u = Some r \<and>
        rating_of_value (py_round (mean_score (items_of u items))) = Inr r"
    proof (cases "u \<in> set ks")
      case True
      with vals show ?thesis by blast
    next
      case False
      with \<open>u \<in> set (k # ks)\<close> have "u = k" by simp
      with False vals r show ?thesis by (simp add: AList.update_conv')
    qed
  next
    fix u
    assume "u \<notin> set (k # ks)"
    with vals show "map_of res u = map_of avg u" by (simp add: AList.update_conv')
  qed
  with step res show ?case by simp
qed

text \<open>
  \<open>_calculate_average_efficiency\<close> never raises, and its result maps exactly the
  utilities scored in some analysis, each to the rating of the rounded mean.
\<close>

lemma calculate_average_efficiency_values:
  "\<exists>avg. calculate_average_efficiency analyses = Inr avg \<and>
     (\<forall>utility.
        (ratings_of utility analyses = [] \<longrightarrow> map_of avg utility = None) \<and>
        (ratings_of utility analyses \<noteq> [] \<longrightarrow>
           (\<exists>r. map_of avg utility = Some r \<and>
              rating_of_value (py_round (mean_score (ratings_of utility analyses))) = Inr r)))"
proof -
  let ?items = "concat (map efficiency_scores analyses)"
  from analyses_loop_tallied [OF tallied_empty, of analyses] obtain totals counts
    where loop: "analyses_loop analyses ([], []) = Inr (totals, counts)"
      and t: "tallied ?items (totals, counts)"
    by auto
  have keys: "u \<in> set (map fst totals) \<longleftrightarrow> items_of u ?items \<noteq> []" for u
  proof -
    have "u \<in> set (map fst totals) \<longleftrightarrow> map_of totals u \<noteq> None"
      by (simp add: map_of_eq_None_iff)
    also have "\<dots> \<longleftrightarrow> items_of u ?items \<noteq> []"
      using t by (simp add: tallied_def)
    finally show ?thesis .
  qed
  then have "\<forall>u \<in> set (map fst totals). items_of u ?items \<noteq> []" by blast
  from average_loop_tallied [OF t this, of "[]"] obtain res
    where res: "average_loop (map fst totals) totals counts [] = Inr res"
      and vals: "\<forall>u. (u \<in> set (map fst totals) \<longrightarrow>
                (\<exists>r. map_of res u = Some r \<and>
                   rating_of_value (py_round (mean_score (items_of u ?items))) = Inr r)) \<and>
            (u \<notin> set (map fst totals) \<longrightarrow> map_of res u = map_of [] u)"
    by blast
  have "calculate_average_efficiency analyses = Inr res"
    using loop res by (simp add: calculate_average_efficiency_def)
  moreover have "\<forall>utility.
        (ratings_of utility analyses = [] \<longrightarrow> map_of res utility = None) \<and>
        (ratings_of utility analyses \<noteq> [] \<longrightarrow>
           (\<exists>r. map_of res utility = Some r \<and>
              rating_of_value (py_round (mean_score (ratings_of utility analyses))) = Inr r))"
    using vals keys unfolding ratings_of_def by (metis map_of.simps(1))
  ultimately show ?thesis by blast
qed

lemma tie_values:
  "py_round (3 / 2) = 2" "py_round (5 / 2) = 2" "py_round (7 / 2) = 4"
  "spec_round_half_up (5 / 2) = 3"
  by code_simp+

text \<open>
  C4 (as amended). In the average efficiency of a report, each utility that appears in
  some record of the slice is mapped to the rating whose ordinal value is the arithmetic
  mean of the ordinal values scored for it, rounded to the nearest integer with a tie
  going to the even integer (Python's \<open>round\<close>); a utility that appears in no record
  is absent. So a mean of 2.5 maps to Average, while means of 1.5 and 3.5 map to Average
  and Excellent.
\<close>

theorem average_efficiency_rounds_half_even:
  "(\<exists>avg. calculate_average_efficiency analyses = Inr avg \<and>
     (\<forall>utility.
        (ratings_of utility analyses = [] \<longrightarrow> map_of avg utility = None) \<and>
        (ratings_of utility analyses \<noteq> [] \<longrightarrow>
           (\<exists>r. map_of avg utility = Some r \<and>
              rating_of_value (py_round (mean_score (ratings_of utility analyses))) = Inr r)))) \<and>
   rating_of_value (py_round (3 / 2)) = Inr Average \<and>
   rating_of_value (py_round (5 / 2)) = Inr Average \<and>
   rating_of_value (py_round (7 / 2)) = Inr Excellent"
  using calculate_average_efficiency_values [of analyses]
  by (simp add: tie_values rating_of_value_def)

theorem average_efficiency_rounds_half_even_witness:
  "\<exists>avg. calculate_average_efficiency
       [analysis_record 1 20 [(''gas'', Good), (''steam'', Poor)],
        analysis_record 2 30 [(''gas'', Average)]] = Inr avg \<and>
     map_of avg ''gas'' = Some Average \<and>
     map_of avg ''steam'' = Some Poor \<and>
     map_of avg ''electricity'' = None"
proof -
  let ?h = "[analysis_record 1 20 [(''gas'', Good), (''steam'', Poor)],
             analysis_record 2 30 [(''gas'', Average)]]"
  have rs: "ratings_of ''gas'' ?h = [Good, Average]" "ratings_of ''steam'' ?h = [Poor]"
    "ratings_of ''electricity'' ?h = []"
    by (simp_all add: ratings_of_def items_of_def analysis_record_def)
  have ms: "mean_score [Good, Average] = 5 / 2" "mean_score [Poor] = 1"
    by (simp_all add: mean_score_def)
  have rv: "rating_of_value (py_round (5 / 2)) = Inr Average"
    "rating_of_value (py_round 1) = Inr Poor"
    using py_round_of_int [of 1] by (simp_all add: tie_values rating_of_value_def)
  from average_efficiency_rounds_half_even [of ?h] obtain avg
    where avg: "calculate_average_efficiency ?h = Inr avg"
      and vals: "\<forall>utility.
        (ratings_of utility ?h = [] \<longrightarrow> map_of avg utility = None) \<and>
        (ratings_of utility ?h \<noteq> [] \<longrightarrow>
           (\<exists>r. map_of avg utility = Some r \<and>
              rating_of_value (py_round (mean_score (ratings_of utility ?h))) = Inr r))"
    by blast
  from vals rs ms rv have "map_of avg ''gas'' = Some Average"
    "map_of avg ''steam'' = Some Poor" "map_of avg ''electricity'' = None"
    by (metis list.distinct(1) sum.inject(2), metis list.distinct(1) sum.inject(2), metis)
  with avg show ?thesis by blast
qed

text \<open>
  C4 as stated fails: gas usage 90 and then 110 against the default benchmark 100 are
  rated Good and Average; the mean of their ordinal values is 2.5, which the code maps to
  Average, where rounding half up gives Good.
\<close>

theorem average_efficiency_tie_counterexample:
  "fst (comprehensive_analysis 1 new_egsa_analyzer [''gas'' \<mapsto> [''usage'' \<mapsto> 90]])
     = Inr (analysis_record 1 (81 / 4) [(''gas'', Good)]) \<and>
   fst (comprehensive_analysis 2 new_egsa_analyzer [''gas'' \<mapsto> [''usage'' \<mapsto> 110]])
     = Inr (analysis_record 2 (99 / 4) [(''gas'', Average)]) \<and>
   calculate_average_efficiency
     [analysis_record 1 (81 / 4) [(''gas'', Good)], analysis_record 2 (99 / 4) [(''gas'', Average)]]
     = Inr [(''gas'', Average)] \<and>
   mean_score [Good, Average] = 5 / 2 \<and>
   rating_of_value (spec_round_half_up (5 / 2)) = Inr Good"
proof -
  have a: "fst (comprehensive_analysis 1 new_egsa_analyzer [''gas'' \<mapsto> [''usage'' \<mapsto> 90]])
     = Inr (analysis_record 1 (81 / 4) [(''gas'', Good)])"
    by (simp add: comprehensive_analysis_def try_then_def electricity_analysis_def
        gas_analysis_def steam_analysis_def air_conditioning_analysis_def getitem_def
        get_default_def calculate_heating_cost_def calculate_cost_def split_def Let_def
        get_efficiency_rating_def efficiency_ratio_def heating_temp_factor_def
        new_egsa_analyzer_def new_gas_calculator_def analysis_record_def)
  have b: "fst (comprehensive_analysis 2 new_egsa_analyzer [''gas'' \<mapsto> [''usage'' \<mapsto> 110]])
     = Inr (analysis_record 2 (99 / 4) [(''gas'', Average)])"
    by (simp add: comprehensive_analysis_def try_then_def electricity_analysis_def
        gas_analysis_def steam_analysis_def air_conditioning_analysis_def getitem_def
        get_default_def calculate_heating_cost_def calculate_cost_def split_def Let_def
        get_efficiency_rating_def efficiency_ratio_def heating_temp_factor_def
        new_egsa_analyzer_def new_gas_calculator_def analysis_record_def)
  have c: "calculate_average_efficiency
     [analysis_record 1 (81 / 4) [(''gas'', Good)], analysis_record 2 (99 / 4) [(''gas'', Average)]]
     = Inr [(''gas'', Average)]"
    by (simp add: calculate_average_efficiency_def analysis_record_def add_score_def
        tie_values rating_of_value_def)
  have d: "mean_score [Good, Average] = 5 / 2"
    by (simp add: mean_score_def)
  have e: "rating_of_value (spec_round_half_up (5 / 2)) = Inr Good"
    by (simp add: tie_values rating_of_value_def)
  from a b c d e show ?thesis by blast
qed

subsection \<open>The monthly report\<close>




text \<open>
  C2 (as amended). When no record of the history has its timestamp in [start, end] (in
  particular when the history is empty), \<open>generate_monthly_report\<close> returns without
  raising, and what it returns is the dictionary with the single key \<open>error\<close>, holding
  the message "No data available for the specified period": it has no \<open>cost_trend\<close>.
\<close>

theorem monthly_report_no_data:
  "relevant_analyses self start_date end_date = [] \<Longrightarrow>
     generate_monthly_report self start_date end_date =
       (Inr (ErrorDict ''No data available for the specified period''), self) \<and>
     get_error (ErrorDict ''No data available for the specified period'')
       = Some ''No data available for the specified period'' \<and>
     get_cost_trend (ErrorDict ''No data available for the specified period'') = None"
  by (simp add: generate_monthly_report_def)

theorem monthly_report_no_data_witness:
  "relevant_analyses new_egsa_analyzer 0 30 = [] \<and>
   generate_monthly_report new_egsa_analyzer 0 30 =
     (Inr (ErrorDict ''No data available for the specified period''), new_egsa_analyzer)"
  using monthly_report_no_data [of new_egsa_analyzer 0 30]
  by (simp add: relevant_analyses_def new_egsa_analyzer_def)

text \<open>
  C2 as stated fails: on a fresh analyzer (empty history) the report carries no
  \<open>cost_trend\<close> at all, so it is not InsufficientData, and it does carry an error
  message.
\<close>

theorem monthly_report_no_data_counterexample:
  "report_cost_trend (fst (generate_monthly_report new_egsa_analyzer 0 30))
     \<noteq> Some InsufficientData \<and>
   map_sum id get_error (fst (generate_monthly_report new_egsa_analyzer 0 30))
     = Inr (Some ''No data available for the specified period'')"
  by (simp add: generate_monthly_report_def relevant_analyses_def new_egsa_analyzer_def
      report_cost_trend_def)

text \<open>
  C10. \<open>generate_monthly_report\<close> is read-only: whatever the dates and the analyzer,
  the analyzer after the call is the analyzer before it (so the analysis history and the
  calculation log of each of the four calculators are unchanged), and calling it again
  with the same arguments gives the same result.
\<close>

theorem monthly_report_read_only:
  "snd (generate_monthly_report self start_date end_date) = self \<and>
   analysis_history (snd (generate_monthly_report self start_date end_date))
     = analysis_history self \<and>
   calculation_history (electricity (snd (generate_monthly_report self start_date end_date)))
     = calculation_history (electricity self) \<and>
   calculation_history (gas (snd (generate_monthly_report self start_date end_date)))
     = calculation_history (gas self) \<and>
   calculation_history (steam (snd (generate_monthly_report self start_date end_date)))
     = calculation_history (steam self) \<and>
   calculation_history (air_conditioning (snd (generate_monthly_report self start_date end_date)))
     = calculation_history (air_conditioning self) \<and>
   fst (generate_monthly_report (snd (generate_monthly_report self start_date end_date))
          start_date end_date)
     = fst (generate_monthly_report self start_date end_date)"
proof -
  have "snd (generate_monthly_report self start_date end_date) = self"
    by (simp add: generate_monthly_report_def Let_def split: sum.splits)
  then show ?thesis by simp
qed

end
